theory Spec2Isabelle
  imports Main
begin

section \<open>Values exchanged by the promotion module\<close>

text \<open>
  JavaScript strings are modelled as \<open>string\<close>; a character stands for one code unit, so
  the model covers the code units below 256. Values handed to \<open>res.json\<close> are \<open>json\<close>
  terms; an object is an association list, so the fields of a response and their order
  can be read off.
\<close>

datatype json = JNull | JBool bool | JStr string | JArr "json list" | JObj "(string \<times> json) list"

text \<open>\<open>error.ValidationErrorMessage\<close>: \<open>{ messages: [{ path, message }] }\<close>.\<close>

record ValidationItem =
  path :: string
  message :: string

record ValidationErrorMessage =
  messages :: "ValidationItem list"

text \<open>
  A rejected promise or a thrown exception is a value of \<open>error\<close>. \<open>ValidationError\<close>
  carries the rejected report, \<open>TypeError\<close> is the property read on \<open>undefined\<close>,
  \<open>NoRoute\<close> the request that no route of the module takes, \<open>Other\<close> any failure of
  a collaborator that the module does not name.
\<close>

datatype error =
    ValidationError ValidationErrorMessage
  | PermissionError
  | Unauthorized
  | NotFound
  | TypeError
  | NoRoute
  | Other string

text \<open>\<open>IPublicity\<close>, with the \<open>id\<close> of the document (\<open>id'\<close>: \<open>id\<close> is the identity of HOL).\<close>

record IPublicity =
  id' :: string
  title :: string
  description :: string
  redirectLink :: string
  imageId :: string
  owner :: "string option"
  enabled :: bool

text \<open>The result of \<open>imageService.create\<close>: \<open>{ id }\<close>.\<close>

record IImage =
  id_image :: string

text \<open>
  \<open>ISessionRequest\<close>: the session user that the token layer attaches (absent when nobody is
  logged in), the parameters bound by the route, and the body, of any type \<open>'b\<close>.
\<close>

record ISession =
  user_id :: string

record 'b ISessionRequest =
  user :: "ISession option"
  params :: "(string \<times> string) list"
  body :: 'b

datatype response = Json json | Send

section \<open>Collaborators and the order of their calls\<close>

text \<open>
  Every function the module imports is a parameter: it reads and changes a world \<open>'w\<close>
  and resolves (\<open>Inr\<close>) or rejects (\<open>Inl\<close>). Each call the module makes is recorded, in
  order, in a list of \<open>call\<close>s next to the world.
\<close>

datatype 'b logged = LogStr string | LogBody 'b

datatype 'b call =
    ConsoleLog "'b logged"
  | OnlyLoggedIn
  | HasPermission string string
  | ServiceList
  | ServiceCreate 'b
  | ServiceRead "string option"
  | ServiceInvalidate "string option"
  | ImageCreate 'b

record ('b, 'w) collaborators =
  onlyLoggedIn :: "'b ISessionRequest \<Rightarrow> 'w \<Rightarrow> (error + 'b ISessionRequest) \<times> 'w"
  user_hasPermission :: "string \<Rightarrow> string \<Rightarrow> 'w \<Rightarrow> (error + unit) \<times> 'w"
  service_list :: "'w \<Rightarrow> (error + IPublicity list) \<times> 'w"
  service_create :: "'b \<Rightarrow> 'w \<Rightarrow> (error + string) \<times> 'w"
  service_read :: "string option \<Rightarrow> 'w \<Rightarrow> (error + IPublicity) \<times> 'w"
  service_invalidate :: "string option \<Rightarrow> 'w \<Rightarrow> (error + unit) \<times> 'w"
  imageService_create :: "'b \<Rightarrow> 'w \<Rightarrow> (error + IImage) \<times> 'w"

type_synonym ('b, 'w) state = "'b call list \<times> 'w"

type_synonym ('b, 'w, 'a) action = "('b, 'w) state \<Rightarrow> (error + 'a) \<times> ('b, 'w) state"

definition resolve :: "'a \<Rightarrow> ('b, 'w, 'a) action" where
  "resolve x = (\<lambda>s. (Inr x, s))"

definition reject :: "error \<Rightarrow> ('b, 'w, 'a) action" where
  "reject e = (\<lambda>s. (Inl e, s))"

text \<open>\<open>const x = await m; k x\<close>: a rejection of \<open>m\<close> ends the function.\<close>

definition then_do :: "('b, 'w, 'a) action \<Rightarrow> ('a \<Rightarrow> ('b, 'w, 'c) action) \<Rightarrow> ('b, 'w, 'c) action" where
  "then_do m k = (\<lambda>s. case m s of (Inl e, s') \<Rightarrow> (Inl e, s') | (Inr x, s') \<Rightarrow> k x s')"

text \<open>A call of a collaborator: the call is recorded, then the collaborator runs.\<close>

definition await :: "'b call \<Rightarrow> ('w \<Rightarrow> (error + 'a) \<times> 'w) \<Rightarrow> ('b, 'w, 'a) action" where
  "await c f = (\<lambda>(tr, w). case f w of (r, w') \<Rightarrow> (r, (tr @ [c], w')))"

definition console_log :: "'b logged \<Rightarrow> ('b, 'w, unit) action" where
  "console_log x = (\<lambda>(tr, w). (Inr (), (tr @ [ConsoleLog x], w)))"

section \<open>The handlers of \<open>promotion/routes.ts\<close>\<close>

text \<open>\<open>req.user.user_id\<close>: a \<open>TypeError\<close> when \<open>req.user\<close> is undefined.\<close>

definition req_user_id :: "'b ISessionRequest \<Rightarrow> ('b, 'w, string) action" where
  "req_user_id req = (case user req of None \<Rightarrow> reject TypeError | Some u \<Rightarrow> resolve (user_id u))"

text \<open>\<open>req.params.promotionId\<close>: undefined (\<open>None\<close>) when the route binds no such parameter.\<close>

definition req_promotionId :: "'b ISessionRequest \<Rightarrow> string option" where
  "req_promotionId req = map_of (params req) ''promotionId''"

text \<open>The object that \<open>list\<close> and \<open>read\<close> build from a document.\<close>

definition project :: "IPublicity \<Rightarrow> json" where
  "project item = JObj
     [(''id'', JStr (id' item)),
      (''title'', JStr (title item)),
      (''description'', JStr (description item)),
      (''redirectLink'', JStr (redirectLink item)),
      (''imageId'', JStr (imageId item))]"

text \<open>The handler \<open>list\<close> (\<open>list_h\<close>: \<open>list\<close> is a type of HOL).\<close>

definition list_h :: "('b, 'w) collaborators \<Rightarrow> 'b ISessionRequest \<Rightarrow> ('b, 'w, response) action" where
  "list_h d req =
     then_do (await ServiceList (service_list d)) (\<lambda>result.
     resolve (Json (JArr (map project result))))"

definition create :: "('b, 'w) collaborators \<Rightarrow> 'b ISessionRequest \<Rightarrow> ('b, 'w, response) action" where
  "create d req =
     then_do (console_log (LogStr ''request body'')) (\<lambda>_.
     then_do (console_log (LogBody (body req))) (\<lambda>_.
     then_do (req_user_id req) (\<lambda>uid.
     then_do (await (HasPermission uid ''admin'') (user_hasPermission d uid ''admin'')) (\<lambda>_.
     then_do (await (ServiceCreate (body req)) (service_create d (body req))) (\<lambda>result.
     then_do (console_log (LogStr ''result'')) (\<lambda>_.
     then_do (console_log (LogStr result)) (\<lambda>_.
     resolve (Json (JObj [(''id'', JStr result)])))))))))"

definition read :: "('b, 'w) collaborators \<Rightarrow> 'b ISessionRequest \<Rightarrow> ('b, 'w, response) action" where
  "read d req =
     then_do (await (ServiceRead (req_promotionId req)) (service_read d (req_promotionId req))) (\<lambda>result.
     resolve (Json (project result)))"

definition remove :: "('b, 'w) collaborators \<Rightarrow> 'b ISessionRequest \<Rightarrow> ('b, 'w, response) action" where
  "remove d req =
     then_do (req_user_id req) (\<lambda>uid.
     then_do (await (HasPermission uid ''admin'') (user_hasPermission d uid ''admin'')) (\<lambda>_.
     then_do (await (ServiceInvalidate (req_promotionId req))
                (service_invalidate d (req_promotionId req))) (\<lambda>_.
     resolve Send)))"

text \<open>The message of the source, code unit by code unit: \<open>Imagen inv\<close>, 0xC3, 0xA1, \<open>lida.\<close>\<close>

definition invalid_image_message :: string where
  "invalid_image_message = ''Imagen inv'' @ [CHR 0xC3, CHR 0xA1] @ ''lida.''"

text \<open>
  \<open>validateUpdatePromotionPicture\<close>. For a string, \<open>!imageId\<close> holds exactly when it is
  the empty string; the second disjunct is the length test of the source.
\<close>

definition validateUpdatePromotionPicture :: "string \<Rightarrow> ('b, 'w, unit) action" where
  "validateUpdatePromotionPicture imageId_arg =
     (let result = \<lparr>messages = []\<rparr>;
          result = (if imageId_arg = [] \<or> length imageId_arg \<le> 0
                    then result\<lparr>messages := messages result @
                           [\<lparr>path = ''image'', message = invalid_image_message\<rparr>]\<rparr>
                    else result)
      in if length (messages result) > 0 then reject (ValidationError result) else resolve ())"

definition updatePromotionPicture ::
    "('b, 'w) collaborators \<Rightarrow> 'b ISessionRequest \<Rightarrow> ('b, 'w, response) action" where
  "updatePromotionPicture d req =
     then_do (await (ImageCreate (body req)) (imageService_create d (body req))) (\<lambda>imageResult.
     then_do (console_log (LogStr ''imageResult id'')) (\<lambda>_.
     then_do (console_log (LogStr (id_image imageResult))) (\<lambda>_.
     then_do (validateUpdatePromotionPicture (id_image imageResult)) (\<lambda>_.
     resolve (Json (JObj [(''id'', JStr (id_image imageResult))]))))))"

section \<open>The routes of \<open>initModule\<close>\<close>

text \<open>
  A path is the list of its segments: \<open>/v1/promotion/:promotionId\<close> is
  \<open>[Lit ''v1'', Lit ''promotion'', Param ''promotionId'']\<close>. A parameter takes one
  non-empty segment and binds it in \<open>req.params\<close>.
\<close>

datatype http_method = GET | POST | PUT | DELETE

datatype segment = Lit string | Param string

fun match_path :: "segment list \<Rightarrow> string list \<Rightarrow> (string \<times> string) list option" where
  "match_path [] [] = Some []"
| "match_path (Lit l # ps) (x # xs) = (if l = x then match_path ps xs else None)"
| "match_path (Param n # ps) (x # xs) =
     (if x = [] then None else map_option (\<lambda>bs. (n, x) # bs) (match_path ps xs))"
| "match_path _ _ = None"

text \<open>
  A step of a route's stack either hands the request on to the next step (\<open>Inl\<close>) or
  answers (\<open>Inr\<close>). \<open>onlyLoggedIn\<close> hands on the request that the token layer returns;
  the five handlers always answer.
\<close>

type_synonym ('b, 'w) step =
  "('b, 'w) collaborators \<Rightarrow> 'b ISessionRequest \<Rightarrow> ('b, 'w, 'b ISessionRequest + response) action"

definition guard_onlyLoggedIn :: "('b, 'w) step" where
  "guard_onlyLoggedIn d req =
     then_do (await OnlyLoggedIn (onlyLoggedIn d req)) (\<lambda>req'. resolve (Inl req'))"

definition answer ::
    "(('b, 'w) collaborators \<Rightarrow> 'b ISessionRequest \<Rightarrow> ('b, 'w, response) action) \<Rightarrow> ('b, 'w) step" where
  "answer h d req = then_do (h d req) (\<lambda>r. resolve (Inr r))"

record ('b, 'w) route =
  route_path :: "segment list"
  stack :: "(http_method \<times> ('b, 'w) step list) list"

definition initModule :: "('b, 'w) route list" where
  "initModule =
     [\<lparr>route_path = [Lit ''v1'', Lit ''promotion''],
       stack = [(GET, [guard_onlyLoggedIn, answer list_h]),
                (POST, [guard_onlyLoggedIn, answer create])]\<rparr>,
      \<lparr>route_path = [Lit ''v1'', Lit ''promotion'', Param ''promotionId''],
       stack = [(GET, [answer read]),
                (DELETE, [guard_onlyLoggedIn, answer remove])]\<rparr>,
      \<lparr>route_path = [Lit ''v1'', Lit ''promotion'', Lit ''picture''],
       stack = [(POST, [guard_onlyLoggedIn, answer updatePromotionPicture])]\<rparr>]"

fun run_stack ::
    "('b, 'w) step list \<Rightarrow> ('b, 'w) collaborators \<Rightarrow> 'b ISessionRequest \<Rightarrow> ('b, 'w, response) action" where
  "run_stack [] d req = reject NoRoute"
| "run_stack (m # ms) d req =
     then_do (m d req) (\<lambda>r. case r of Inl req' \<Rightarrow> run_stack ms d req' | Inr resp \<Rightarrow> resolve resp)"

text \<open>
  The router takes the routes in the order of their registration and runs the stack of
  the first one whose path matches and that handles the method.
\<close>

fun dispatch ::
    "('b, 'w) route list \<Rightarrow> ('b, 'w) collaborators \<Rightarrow> http_method \<Rightarrow> string list \<Rightarrow>
     'b ISessionRequest \<Rightarrow> ('b, 'w, response) action" where
  "dispatch [] d m p req = reject NoRoute"
| "dispatch (r # rs) d m p req =
     (case match_path (route_path r) p of
        None \<Rightarrow> dispatch rs d m p req
      | Some ps \<Rightarrow>
          (case map_of (stack r) m of
             None \<Rightarrow> dispatch rs d m p req
           | Some steps \<Rightarrow> run_stack steps d (req\<lparr>params := ps\<rparr>)))"

section \<open>\<open>PublicitySchema\<close>\<close>

text \<open>The options that the schema gives to a path of each type.\<close>

record StringOptions =
  default_s :: string
  trim_s :: bool
  required_s :: string

record ObjectIdOptions =
  ref_o :: string
  required_o :: string

record BooleanOptions =
  default_b :: bool

record Schema =
  title_path :: StringOptions
  description_path :: StringOptions
  redirectLink_path :: StringOptions
  imageId_path :: StringOptions
  owner_path :: ObjectIdOptions
  enabled_path :: BooleanOptions
  collection :: string

definition PublicitySchema :: Schema where
  "PublicitySchema =
     \<lparr>title_path =
        \<lparr>default_s = [], trim_s = True,
         required_s = ''Nombre no puede estar vac'' @ [CHR 0xED] @ ''o.''\<rparr>,
      description_path =
        \<lparr>default_s = [], trim_s = True,
         required_s = ''La desripcion de la publicidad no puede estar vacia.''\<rparr>,
      redirectLink_path =
        \<lparr>default_s = [], trim_s = True,
         required_s = ''Toda publicidad debe tener un link que redireccione a la publicidad.''\<rparr>,
      imageId_path =
        \<lparr>default_s = [], trim_s = True,
         required_s = ''Toda publicidad debe tener una image que la represente.''\<rparr>,
      owner_path =
        \<lparr>ref_o = ''User'', required_o = ''Toda publicidad debe tener una dueno''\<rparr>,
      enabled_path = \<lparr>default_b = True\<rparr>,
      collection = ''publicities''\<rparr>"

subsection \<open>What the options mean\<close>

text \<open>
  The schema is a declaration; the document library reads it. A path with \<open>trim\<close> passes
  every value set on it through \<open>String.prototype.trim\<close>, a path that is not set takes
  its \<open>default\<close>, and \<open>required\<close> is a validator that runs when the document is
  saved, before anything is written.
\<close>

text \<open>
  The white space that \<open>String.prototype.trim\<close> removes, among the code units below
  256: tab, line feed, vertical tab, form feed, carriage return, space, no-break space.
\<close>

definition is_white_space :: "char \<Rightarrow> bool" where
  "is_white_space c \<longleftrightarrow>
     c \<in> set [CHR 0x09, CHR 0x0A, CHR 0x0B, CHR 0x0C, CHR 0x0D, CHR 0x20, CHR 0xA0]"

definition trim :: "string \<Rightarrow> string" where
  "trim s = rev (dropWhile is_white_space (rev (dropWhile is_white_space s)))"

text \<open>
  The plain object from which a document is built; \<open>None\<close> is a property that is not
  set.
\<close>

record PublicityInput =
  in_title :: "string option"
  in_description :: "string option"
  in_redirectLink :: "string option"
  in_imageId :: "string option"
  in_owner :: "string option"
  in_enabled :: "bool option"

text \<open>
  A string path: a value that is set goes through the \<open>trim\<close> setter, a value that is
  not set takes the default.
\<close>

definition set_string :: "StringOptions \<Rightarrow> string option \<Rightarrow> string" where
  "set_string opts v =
     (case v of None \<Rightarrow> default_s opts
      | Some s \<Rightarrow> if trim_s opts then trim s else s)"

definition set_boolean :: "BooleanOptions \<Rightarrow> bool option \<Rightarrow> bool" where
  "set_boolean opts v = (case v of None \<Rightarrow> default_b opts | Some b \<Rightarrow> b)"

text \<open>\<open>new Publicity(input)\<close>, with the identifier \<open>i\<close> that the document receives.\<close>

definition new_document :: "Schema \<Rightarrow> string \<Rightarrow> PublicityInput \<Rightarrow> IPublicity" where
  "new_document sch i input =
     \<lparr>id' = i,
      title = set_string (title_path sch) (in_title input),
      description = set_string (description_path sch) (in_description input),
      redirectLink = set_string (redirectLink_path sch) (in_redirectLink input),
      imageId = set_string (imageId_path sch) (in_imageId input),
      owner = in_owner input,
      enabled = set_boolean (enabled_path sch) (in_enabled input)\<rparr>"

text \<open>
  The \<open>required\<close> validator: a string passes when its length is positive, a reference
  when it is set. A path that fails reports the message of its \<open>required\<close> option.
\<close>

definition required_string :: "string \<Rightarrow> StringOptions \<Rightarrow> string \<Rightarrow> ValidationItem list" where
  "required_string p opts v =
     (if length v > 0 then [] else [\<lparr>path = p, message = required_s opts\<rparr>])"

definition required_objectId :: "string \<Rightarrow> ObjectIdOptions \<Rightarrow> string option \<Rightarrow> ValidationItem list" where
  "required_objectId p opts v =
     (case v of Some _ \<Rightarrow> [] | None \<Rightarrow> [\<lparr>path = p, message = required_o opts\<rparr>])"

definition validate :: "Schema \<Rightarrow> IPublicity \<Rightarrow> ValidationItem list" where
  "validate sch doc =
     required_string ''title'' (title_path sch) (title doc) @
     required_string ''description'' (description_path sch) (description doc) @
     required_string ''redirectLink'' (redirectLink_path sch) (redirectLink doc) @
     required_string ''imageId'' (imageId_path sch) (imageId doc) @
     required_objectId ''owner'' (owner_path sch) (owner doc)"

text \<open>
  The collection, in the order of insertion. \<open>save\<close> validates the new document first and
  inserts it only when no path fails.
\<close>

record DB =
  publicities :: "IPublicity list"

definition save :: "Schema \<Rightarrow> IPublicity \<Rightarrow> DB \<Rightarrow> (error + IPublicity) \<times> DB" where
  "save sch doc db =
     (let errs = validate sch doc
      in if errs \<noteq> [] then (Inl (ValidationError \<lparr>messages = errs\<rparr>), db)
         else (Inr doc, db\<lparr>publicities := publicities db @ [doc]\<rparr>))"

section \<open>The promotion service\<close>

text \<open>
  Modelled from the spec: \<open>service.list\<close> of \<open>promotion/service\<close>, which is not among
  the sources. "Returns all promotions with \<open>enabled=true\<close>"; the store is read, not
  changed.
\<close>

definition spec_list :: "DB \<Rightarrow> (error + IPublicity list) \<times> DB" where
  "spec_list db = (Inr (filter enabled (publicities db)), db)"

text \<open>
  Modelled from the spec: \<open>service.create\<close> of \<open>promotion/service\<close>, which is not among
  the sources. "Validates input against the Promotion rules; on success, persists a new
  Promotion owned by the caller and returns its id"; "no record is written" when a rule
  fails. The rules are those of \<open>PublicitySchema\<close>; \<open>new_id\<close> is the identifier
  generation of the persistence engine, \<open>caller\<close> the user the promotion will belong to.
\<close>

definition spec_create ::
    "(DB \<Rightarrow> string) \<Rightarrow> string \<Rightarrow> PublicityInput \<Rightarrow> DB \<Rightarrow> (error + string) \<times> DB" where
  "spec_create new_id caller input db =
     (case save PublicitySchema
             (new_document PublicitySchema (new_id db) (input\<lparr>in_owner := Some caller\<rparr>)) db of
        (Inl e, db') \<Rightarrow> (Inl e, db')
      | (Inr doc, db') \<Rightarrow> (Inr (id' doc), db'))"

text \<open>
  Modelled from the spec: \<open>service.read\<close> of \<open>promotion/service\<close>, which is not among the
  sources. "Fetches a Promotion by \<open>id\<close>"; "fails with NotFound if no record exists for
  \<open>id\<close>"; invalidated records remain readable.
\<close>

definition spec_read :: "string option \<Rightarrow> DB \<Rightarrow> (error + IPublicity) \<times> DB" where
  "spec_read pid db =
     (case pid of
        None \<Rightarrow> (Inl NotFound, db)
      | Some i \<Rightarrow>
          (case find (\<lambda>p. id' p = i) (publicities db) of
             None \<Rightarrow> (Inl NotFound, db)
           | Some p \<Rightarrow> (Inr p, db)))"

text \<open>
  Modelled from the spec: \<open>service.invalidate\<close> of \<open>promotion/service\<close>, which is not
  among the sources. "Sets \<open>enabled=false\<close> on the record with that \<open>id\<close>"; "fails with
  NotFound" when there is none; invalidating an invalidated record succeeds.
\<close>

definition spec_invalidate :: "string option \<Rightarrow> DB \<Rightarrow> (error + unit) \<times> DB" where
  "spec_invalidate pid db =
     (case pid of
        None \<Rightarrow> (Inl NotFound, db)
      | Some i \<Rightarrow>
          (case find (\<lambda>p. id' p = i) (publicities db) of
             None \<Rightarrow> (Inl NotFound, db)
           | Some _ \<Rightarrow>
               (Inr (), db\<lparr>publicities :=
                  map (\<lambda>p. if id' p = i then p\<lparr>enabled := False\<rparr> else p) (publicities db)\<rparr>)))"

section \<open>Example values\<close>

text \<open>A token layer that lets a request pass when it carries a session user.\<close>

definition session_required :: "'b ISessionRequest \<Rightarrow> 'w \<Rightarrow> (error + 'b ISessionRequest) \<times> 'w" where
  "session_required req w = (case user req of None \<Rightarrow> (Inl Unauthorized, w) | Some _ \<Rightarrow> (Inr req, w))"

text \<open>A user service in which \<open>root\<close> alone holds the \<open>admin\<close> role.\<close>

definition root_is_admin :: "string \<Rightarrow> string \<Rightarrow> 'w \<Rightarrow> (error + unit) \<times> 'w" where
  "root_is_admin uid role w =
     (if uid = ''root'' \<and> role = ''admin'' then (Inr (), w) else (Inl PermissionError, w))"

text \<open>
  A world of numbered records: every service call that changes the store counts up, the
  image store answers with the identifier it is given as the body.
\<close>

definition counting :: "(string, nat) collaborators" where
  "counting =
     \<lparr>onlyLoggedIn = session_required,
      user_hasPermission = root_is_admin,
      service_list = (\<lambda>n. (Inr [], n)),
      service_create = (\<lambda>b n. (Inr b, Suc n)),
      service_read = (\<lambda>pid n. case pid of None \<Rightarrow> (Inl NotFound, n)
         | Some i \<Rightarrow> (Inr \<lparr>id' = i, title = ''t'', description = ''d'', redirectLink = ''l'',
                          imageId = ''m'', owner = Some ''root'', enabled = False\<rparr>, n)),
      service_invalidate = (\<lambda>pid n. (Inr (), Suc n)),
      imageService_create = (\<lambda>b n. (Inr \<lparr>id_image = b\<rparr>, Suc n))\<rparr>"

text \<open>The promotion service over a store, for the caller \<open>root\<close>; it stores no images.\<close>

definition promotions :: "(PublicityInput, DB) collaborators" where
  "promotions =
     \<lparr>onlyLoggedIn = session_required,
      user_hasPermission = root_is_admin,
      service_list = spec_list,
      service_create = spec_create (\<lambda>db. replicate (Suc (length (publicities db))) CHR ''p'') ''root'',
      service_read = spec_read,
      service_invalidate = spec_invalidate,
      imageService_create = (\<lambda>b db. (Inl (Other ''no image store''), db))\<rparr>"

definition padre :: PublicityInput where
  "padre =
     \<lparr>in_title = Some ''Dia del Padre'', in_description = Some ''...'',
      in_redirectLink = Some ''http://x'', in_imageId = None, in_owner = None,
      in_enabled = None\<rparr>"

definition by_root :: "'b \<Rightarrow> 'b ISessionRequest" where
  "by_root b = \<lparr>user = Some \<lparr>user_id = ''root''\<rparr>, params = [], body = b\<rparr>"

definition by_guest :: "'b \<Rightarrow> 'b ISessionRequest" where
  "by_guest b = \<lparr>user = Some \<lparr>user_id = ''guest''\<rparr>, params = [], body = b\<rparr>"

definition anonymous :: "'b \<Rightarrow> 'b ISessionRequest" where
  "anonymous b = \<lparr>user = None, params = [], body = b\<rparr>"

definition old_banner :: IPublicity where
  "old_banner =
     \<lparr>id' = ''a'', title = ''Old'', description = ''gone'', redirectLink = ''http://o'',
      imageId = ''i1'', owner = Some ''root'', enabled = False\<rparr>"

definition new_banner :: IPublicity where
  "new_banner =
     \<lparr>id' = ''b'', title = ''New'', description = ''here'', redirectLink = ''http://n'',
      imageId = ''i2'', owner = Some ''root'', enabled = True\<rparr>"

text \<open>A property of the input that is set and is not empty once trimmed.\<close>

definition present :: "string option \<Rightarrow> bool" where
  "present v = (case v of None \<Rightarrow> False | Some s \<Rightarrow> trim s \<noteq> [])"

section \<open>Auxiliary facts\<close>

lemmas run_defs = then_do_def await_def console_log_def resolve_def reject_def req_user_id_def

lemmas example_defs = counting_def promotions_def by_root_def by_guest_def anonymous_def
  session_required_def root_is_admin_def padre_def old_banner_def new_banner_def

lemmas schema_defs = save_def validate_def required_string_def required_objectId_def
  new_document_def set_string_def set_boolean_def PublicitySchema_def Let_def trim_def
  is_white_space_def present_def

lemma validate_picture:
  "validateUpdatePromotionPicture i s =
     (if i = []
      then (Inl (ValidationError
              \<lparr>messages = [\<lparr>path = ''image'', message = invalid_image_message\<rparr>]\<rparr>), s)
      else (Inr (), s))"
  by (simp add: validateUpdatePromotionPicture_def Let_def resolve_def reject_def)

text \<open>What \<open>trim\<close> leaves neither starts nor ends with white space.\<close>

lemma trim_outer:
  assumes "trim s \<noteq> []"
  shows "\<not> is_white_space (hd (trim s)) \<and> \<not> is_white_space (last (trim s))"
proof -
  let ?zs = "dropWhile is_white_space s"
  let ?ys = "dropWhile is_white_space (rev ?zs)"
  from assms have ys: "?ys \<noteq> []" by (simp add: trim_def)
  have zs: "?zs \<noteq> []"
  proof
    assume a: "?zs = []"
    from ys show False unfolding a by simp
  qed
  have "last (trim s) = hd ?ys" using ys by (simp add: trim_def last_rev)
  moreover have "\<not> is_white_space (hd ?ys)" using ys by (rule hd_dropWhile)
  moreover have "hd (trim s) = last ?ys" using ys by (simp add: trim_def hd_rev)
  moreover have "last ?ys = last (rev ?zs)"
  proof -
    have "rev ?zs = takeWhile is_white_space (rev ?zs) @ ?ys" by simp
    then have "last (rev ?zs) = last (takeWhile is_white_space (rev ?zs) @ ?ys)" by simp
    also have "\<dots> = last ?ys" using ys by (rule last_appendR)
    finally show ?thesis by simp
  qed
  moreover have "last (rev ?zs) = hd ?zs" using zs by (simp add: last_rev)
  moreover have "\<not> is_white_space (hd ?zs)" using zs by (rule hd_dropWhile)
  ultimately show ?thesis by simp
qed

lemma validate_PublicitySchema:
  "validate PublicitySchema doc = [] \<longleftrightarrow>
     title doc \<noteq> [] \<and> description doc \<noteq> [] \<and> redirectLink doc \<noteq> [] \<and> imageId doc \<noteq> [] \<and>
     owner doc \<noteq> None"
  by (auto simp: validate_def required_string_def required_objectId_def split: option.splits)

lemma set_string_PublicitySchema:
  "set_string (title_path PublicitySchema) v = (case v of None \<Rightarrow> [] | Some s \<Rightarrow> trim s)"
  "set_string (description_path PublicitySchema) v = (case v of None \<Rightarrow> [] | Some s \<Rightarrow> trim s)"
  "set_string (redirectLink_path PublicitySchema) v = (case v of None \<Rightarrow> [] | Some s \<Rightarrow> trim s)"
  "set_string (imageId_path PublicitySchema) v = (case v of None \<Rightarrow> [] | Some s \<Rightarrow> trim s)"
  by (simp_all add: set_string_def PublicitySchema_def split: option.splits)

lemma find_fresh:
  "i \<notin> id' ` set xs \<Longrightarrow> id' doc = i \<Longrightarrow> find (\<lambda>p. id' p = i) (xs @ [doc]) = Some doc"
  by (induction xs) auto

lemma save_complete:
  "title doc \<noteq> [] \<Longrightarrow> description doc \<noteq> [] \<Longrightarrow> redirectLink doc \<noteq> [] \<Longrightarrow>
   imageId doc \<noteq> [] \<Longrightarrow> owner doc \<noteq> None \<Longrightarrow>
   save PublicitySchema doc db = (Inr doc, db\<lparr>publicities := publicities db @ [doc]\<rparr>)"
  by (simp add: save_def Let_def validate_PublicitySchema)

lemma validate_only_image_missing:
  "title doc \<noteq> [] \<Longrightarrow> description doc \<noteq> [] \<Longrightarrow> redirectLink doc \<noteq> [] \<Longrightarrow>
   imageId doc = [] \<Longrightarrow> owner doc \<noteq> None \<Longrightarrow>
   validate PublicitySchema doc =
     [\<lparr>path = ''imageId'', message = required_s (imageId_path PublicitySchema)\<rparr>]"
  by (auto simp: validate_def required_string_def required_objectId_def split: option.splits)

section \<open>Permission before mutation\<close>

text \<open>
  C1. In \<open>create\<close> and in \<open>remove\<close>, started with no call made yet: when the store
  mutation (\<open>service.create\<close>, \<open>service.invalidate\<close>) is among the calls, the request
  has a user, \<open>hasPermission\<close> for that user and \<open>admin\<close> resolved, and its call comes
  immediately before the mutation; when \<open>hasPermission\<close> rejects, the handler rejects
  with the same error, the permission check is the last call, and the world is the one
  the check left.
\<close>

theorem permission_precedes_mutation:
  "(create d req ([], w) = (r, (tr', w')) \<longrightarrow>
      (\<forall>b. ServiceCreate b \<in> set tr' \<longrightarrow>
         (\<exists>u w1 rest. user req = Some u \<and>
            user_hasPermission d (user_id u) ''admin'' w = (Inr (), w1) \<and>
            b = body req \<and>
            tr' = [ConsoleLog (LogStr ''request body''), ConsoleLog (LogBody (body req)),
                   HasPermission (user_id u) ''admin'', ServiceCreate (body req)] @ rest)) \<and>
      (\<forall>u e w1. user req = Some u \<and> user_hasPermission d (user_id u) ''admin'' w = (Inl e, w1) \<longrightarrow>
         r = Inl e \<and> w' = w1 \<and>
         tr' = [ConsoleLog (LogStr ''request body''), ConsoleLog (LogBody (body req)),
                HasPermission (user_id u) ''admin''])) \<and>
   (remove d req ([], w) = (r, (tr', w')) \<longrightarrow>
      (\<forall>p. ServiceInvalidate p \<in> set tr' \<longrightarrow>
         (\<exists>u w1. user req = Some u \<and>
            user_hasPermission d (user_id u) ''admin'' w = (Inr (), w1) \<and>
            p = req_promotionId req \<and>
            tr' = [HasPermission (user_id u) ''admin'', ServiceInvalidate (req_promotionId req)])) \<and>
      (\<forall>u e w1. user req = Some u \<and> user_hasPermission d (user_id u) ''admin'' w = (Inl e, w1) \<longrightarrow>
         r = Inl e \<and> w' = w1 \<and> tr' = [HasPermission (user_id u) ''admin'']))"
  by (auto simp: create_def remove_def run_defs split: prod.splits sum.splits option.splits)

theorem permission_precedes_mutation_witness:
  "create counting (by_guest ''x'') ([], 0) =
     (Inl PermissionError,
      ([ConsoleLog (LogStr ''request body''), ConsoleLog (LogBody ''x''),
        HasPermission ''guest'' ''admin''], 0)) \<and>
   remove counting (by_guest ''x'') ([], 0) =
     (Inl PermissionError, ([HasPermission ''guest'' ''admin''], 0)) \<and>
   user_hasPermission counting ''root'' ''admin'' 0 = (Inr (), 0) \<and>
   ServiceCreate ''x'' \<in> set (fst (snd (create counting (by_root ''x'') ([], 0)))) \<and>
   ServiceInvalidate None \<in> set (fst (snd (remove counting (by_root ''x'') ([], 0))))"
proof -
  have g: "user (by_guest ''x'') = Some \<lparr>user_id = ''guest''\<rparr> \<and>
           user_hasPermission counting (user_id \<lparr>user_id = ''guest''\<rparr>) ''admin'' 0 =
             (Inl PermissionError, 0)"
    by (simp add: example_defs)
  obtain r tr' w' where c: "create counting (by_guest ''x'') ([], 0::nat) = (r, (tr', w'))"
    by (metis prod.exhaust)
  obtain r2 tr2 w2 where d: "remove counting (by_guest ''x'') ([], 0::nat) = (r2, (tr2, w2))"
    by (metis prod.exhaust)
  note t = permission_precedes_mutation [of counting "by_guest ''x''" 0 r tr' w']
  note t2 = permission_precedes_mutation [of counting "by_guest ''x''" 0 r2 tr2 w2]
  have 1: "r = Inl PermissionError \<and> w' = 0 \<and>
           tr' = [ConsoleLog (LogStr ''request body''), ConsoleLog (LogBody (body (by_guest ''x''))),
                  HasPermission (user_id \<lparr>user_id = ''guest''\<rparr>) ''admin'']"
    by (rule t [THEN conjunct1, THEN mp, OF c, THEN conjunct2, THEN spec, THEN spec, THEN spec,
                THEN mp, OF g])
  have 2: "r2 = Inl PermissionError \<and> w2 = 0 \<and>
           tr2 = [HasPermission (user_id \<lparr>user_id = ''guest''\<rparr>) ''admin'']"
    by (rule t2 [THEN conjunct2, THEN mp, OF d, THEN conjunct2, THEN spec, THEN spec, THEN spec,
                 THEN mp, OF g])
  have 3: "user_hasPermission counting ''root'' ''admin'' (0::nat) = (Inr (), 0)"
    by (simp add: example_defs)
  have 4: "ServiceCreate ''x'' \<in> set (fst (snd (create counting (by_root ''x'') ([], 0))))"
    by (simp add: create_def run_defs example_defs)
  have 5: "ServiceInvalidate None \<in> set (fst (snd (remove counting (by_root ''x'') ([], 0))))"
    by (simp add: remove_def run_defs example_defs req_promotionId_def)
  from c d 1 2 3 4 5 show ?thesis by (simp add: by_guest_def)
qed

section \<open>The image attachment\<close>

text \<open>
  C2. When the image store resolves with an identifier, \<open>updatePromotionPicture\<close> rejects
  with a validation report exactly when the identifier has length 0; the report then has
  the single entry with path \<open>image\<close> and the invalid-image message; for an identifier of
  any other length the answer is the object \<open>{id}\<close> with that identifier.
\<close>

theorem attach_fails_iff_identifier_empty:
  "imageService_create d (body req) w = (Inr img, w1) \<Longrightarrow>
   ((\<exists>m. fst (updatePromotionPicture d req (tr, w)) = Inl (ValidationError m)) \<longleftrightarrow>
      length (id_image img) = 0) \<and>
   (length (id_image img) = 0 \<longrightarrow>
      fst (updatePromotionPicture d req (tr, w)) =
        Inl (ValidationError \<lparr>messages = [\<lparr>path = ''image'', message = invalid_image_message\<rparr>]\<rparr>)) \<and>
   (length (id_image img) \<noteq> 0 \<longrightarrow>
      fst (updatePromotionPicture d req (tr, w)) = Inr (Json (JObj [(''id'', JStr (id_image img))])))"
  by (simp add: updatePromotionPicture_def run_defs validate_picture)

theorem attach_fails_iff_identifier_empty_witness:
  "imageService_create counting (body (by_root [])) 0 = (Inr \<lparr>id_image = []\<rparr>, 1) \<and>
   fst (updatePromotionPicture counting (by_root []) ([], 0)) =
     Inl (ValidationError \<lparr>messages = [\<lparr>path = ''image'', message = invalid_image_message\<rparr>]\<rparr>) \<and>
   imageService_create counting (body (by_root ''i7'')) 0 = (Inr \<lparr>id_image = ''i7''\<rparr>, 1) \<and>
   fst (updatePromotionPicture counting (by_root ''i7'') ([], 0)) =
     Inr (Json (JObj [(''id'', JStr ''i7'')]))"
proof -
  have a: "imageService_create counting (body (by_root [])) 0 = (Inr \<lparr>id_image = []\<rparr>, 1)"
    by (simp add: example_defs)
  have b: "imageService_create counting (body (by_root ''i7'')) 0 = (Inr \<lparr>id_image = ''i7''\<rparr>, 1)"
    by (simp add: example_defs)
  from attach_fails_iff_identifier_empty [OF a, of "[]"]
       attach_fails_iff_identifier_empty [OF b, of "[]"] a b
  show ?thesis by simp
qed

text \<open>
  C10. Every identifier of positive length passes \<open>validateUpdatePromotionPicture\<close>,
  whatever its characters, and \<open>updatePromotionPicture\<close> answers with it unchanged; so
  does the identifier that is a single space.
\<close>

theorem attach_accepts_any_nonempty_identifier:
  "length i > 0 \<Longrightarrow>
   validateUpdatePromotionPicture i s = (Inr (), s) \<and>
   (imageService_create d (body req) w = (Inr \<lparr>id_image = i\<rparr>, w1) \<longrightarrow>
      fst (updatePromotionPicture d req (tr, w)) = Inr (Json (JObj [(''id'', JStr i)])))"
  by (simp add: updatePromotionPicture_def run_defs validate_picture)

theorem attach_accepts_any_nonempty_identifier_witness:
  "length '' '' > 0 \<and> is_white_space CHR '' '' \<and>
   validateUpdatePromotionPicture '' '' ([], 0::nat) = (Inr (), ([], 0)) \<and>
   fst (updatePromotionPicture counting (by_root '' '') ([], 0)) =
     Inr (Json (JObj [(''id'', JStr '' '')]))"
proof -
  have a: "length '' '' > 0" by simp
  have b: "imageService_create counting (body (by_root '' '')) 0 = (Inr \<lparr>id_image = '' ''\<rparr>, 1)"
    by (simp add: example_defs)
  from attach_accepts_any_nonempty_identifier
         [OF a, of "([], 0::nat)" counting "by_root '' ''" 0 1 "[]"] b
  show ?thesis by (simp add: is_white_space_def)
qed

text \<open>
  C7. \<open>updatePromotionPicture\<close> calls the image store first, with the body of the
  request; the validation is applied to the identifier that this call returned. Apart
  from console output, the call of the image store is the only call made: no operation
  of the promotion service is called, and the world at the end is the one the image
  store left, also when the validation rejects.
\<close>

theorem attach_creates_image_first_and_persists_nothing:
  "imageService_create d (body req) w = (ri, w1) \<Longrightarrow>
   updatePromotionPicture d req (tr, w) = (r, (tr', w')) \<Longrightarrow>
   w' = w1 \<and>
   (case ri of
      Inl e \<Rightarrow> r = Inl e \<and> tr' = tr @ [ImageCreate (body req)]
    | Inr img \<Rightarrow>
        r = (case fst (validateUpdatePromotionPicture (id_image img) (tr', w1)) of
               Inl e \<Rightarrow> Inl e | Inr _ \<Rightarrow> Inr (Json (JObj [(''id'', JStr (id_image img))]))) \<and>
        tr' = tr @ [ImageCreate (body req), ConsoleLog (LogStr ''imageResult id''),
                    ConsoleLog (LogStr (id_image img))]) \<and>
   (\<forall>c \<in> set (drop (length tr) tr'). c = ImageCreate (body req) \<or> (\<exists>x. c = ConsoleLog x))"
  by (auto simp: updatePromotionPicture_def run_defs validate_picture split: prod.splits sum.splits)

theorem attach_creates_image_first_and_persists_nothing_witness:
  "imageService_create counting (body (by_root [])) 0 = (Inr \<lparr>id_image = []\<rparr>, 1) \<and>
   updatePromotionPicture counting (by_root []) ([], 0) =
     (Inl (ValidationError \<lparr>messages = [\<lparr>path = ''image'', message = invalid_image_message\<rparr>]\<rparr>),
      ([ImageCreate [], ConsoleLog (LogStr ''imageResult id''), ConsoleLog (LogStr [])], 1))"
proof -
  have a: "imageService_create counting (body (by_root [])) 0 = (Inr \<lparr>id_image = []\<rparr>, 1)"
    by (simp add: example_defs)
  obtain r tr' w' where b: "updatePromotionPicture counting (by_root []) ([], 0::nat) = (r, (tr', w'))"
    by (metis prod.exhaust)
  from attach_creates_image_first_and_persists_nothing [OF a b] a b
  show ?thesis by (simp add: validate_picture by_root_def)
qed

section \<open>Listing and reading\<close>

text \<open>
  C4. With \<open>service.list\<close> as the spec describes it, the service returns exactly the
  records of the store whose \<open>enabled\<close> is true, no record whose \<open>enabled\<close> is false
  is among them, and the handler answers with their projections.
\<close>

theorem list_returns_exactly_the_enabled:
  "service_list d = spec_list \<Longrightarrow>
   (\<exists>result. service_list d db = (Inr result, db) \<and>
      set result = {p \<in> set (publicities db). enabled p} \<and>
      (\<forall>p \<in> set (publicities db). \<not> enabled p \<longrightarrow> p \<notin> set result) \<and>
      list_h d req (tr, db) = (Inr (Json (JArr (map project result))), (tr @ [ServiceList], db)))"
  by (auto simp: spec_list_def list_h_def run_defs)

theorem list_returns_exactly_the_enabled_witness:
  "service_list promotions = spec_list \<and>
   list_h promotions (anonymous padre) ([], \<lparr>publicities = [old_banner, new_banner]\<rparr>) =
     (Inr (Json (JArr [project new_banner])),
      ([ServiceList], \<lparr>publicities = [old_banner, new_banner]\<rparr>))"
proof -
  have a: "service_list promotions = spec_list" by (simp add: promotions_def)
  from list_returns_exactly_the_enabled [OF a, of "\<lparr>publicities = [old_banner, new_banner]\<rparr>"
      "anonymous padre" "[]"]
  obtain result where
    r: "service_list promotions \<lparr>publicities = [old_banner, new_banner]\<rparr> =
          (Inr result, \<lparr>publicities = [old_banner, new_banner]\<rparr>)"
    and l: "list_h promotions (anonymous padre) ([], \<lparr>publicities = [old_banner, new_banner]\<rparr>) =
          (Inr (Json (JArr (map project result))),
           ([] @ [ServiceList], \<lparr>publicities = [old_banner, new_banner]\<rparr>))"
    by blast
  from r have "result = [new_banner]"
    by (simp add: a spec_list_def old_banner_def new_banner_def)
  with l a show ?thesis by simp
qed

text \<open>
  C5. Whatever documents the service returns, the answer of \<open>list\<close> is an array of objects
  whose fields are \<open>id\<close>, \<open>title\<close>, \<open>description\<close>, \<open>redirectLink\<close>, \<open>imageId\<close> and
  no other; \<open>owner\<close> and \<open>enabled\<close> are not among them.
\<close>

theorem list_response_has_five_fields:
  "list_h d req s = (Inr resp, s') \<Longrightarrow>
   \<exists>items. resp = Json (JArr items) \<and>
     (\<forall>item \<in> set items. \<exists>fields. item = JObj fields \<and>
        map fst fields = [''id'', ''title'', ''description'', ''redirectLink'', ''imageId''] \<and>
        ''owner'' \<notin> fst ` set fields \<and> ''enabled'' \<notin> fst ` set fields)"
  by (auto simp: list_h_def run_defs project_def split: prod.splits sum.splits)

theorem list_response_has_five_fields_witness:
  "list_h promotions (anonymous padre) ([], \<lparr>publicities = [old_banner, new_banner]\<rparr>) =
     (Inr (Json (JArr [JObj [(''id'', JStr ''b''), (''title'', JStr ''New''),
        (''description'', JStr ''here''), (''redirectLink'', JStr ''http://n''),
        (''imageId'', JStr ''i2'')]])),
      ([ServiceList], \<lparr>publicities = [old_banner, new_banner]\<rparr>)) \<and>
   map fst [(''id'', JStr ''b''), (''title'', JStr ''New''), (''description'', JStr ''here''),
        (''redirectLink'', JStr ''http://n''), (''imageId'', JStr ''i2'')] =
     [''id'', ''title'', ''description'', ''redirectLink'', ''imageId'']"
proof -
  let ?fs = "[(''id'', JStr ''b''), (''title'', JStr ''New''), (''description'', JStr ''here''),
        (''redirectLink'', JStr ''http://n''), (''imageId'', JStr ''i2'')]"
  have a: "list_h promotions (anonymous padre) ([], \<lparr>publicities = [old_banner, new_banner]\<rparr>) =
     (Inr (Json (JArr [JObj ?fs])), ([ServiceList], \<lparr>publicities = [old_banner, new_banner]\<rparr>))"
    by (simp add: list_h_def run_defs example_defs spec_list_def project_def)
  from list_response_has_five_fields [OF a]
  obtain items where i: "Json (JArr [JObj ?fs]) = Json (JArr items)"
    and f: "\<forall>item \<in> set items. \<exists>fields. item = JObj fields \<and>
        map fst fields = [''id'', ''title'', ''description'', ''redirectLink'', ''imageId''] \<and>
        ''owner'' \<notin> fst ` set fields \<and> ''enabled'' \<notin> fst ` set fields"
    by blast
  from i have "JObj ?fs \<in> set items" by auto
  with f obtain fields where "JObj ?fs = JObj fields"
    "map fst fields = [''id'', ''title'', ''description'', ''redirectLink'', ''imageId'']"
    by blast
  then have "map fst ?fs = [''id'', ''title'', ''description'', ''redirectLink'', ''imageId'']"
    by (simp only: json.inject)
  with a show ?thesis by (rule conjI)
qed

text \<open>
  C6. A \<open>GET\<close> of \<open>/v1/promotion/:promotionId\<close> is answered the same whatever the token
  layer and the permission check would say and whatever user the request carries, or
  none: the only call made is \<open>service.read\<close> with the identifier of the path, and when
  the service finds the record the answer is the object of its \<open>id\<close>, \<open>title\<close>,
  \<open>description\<close>, \<open>redirectLink\<close> and \<open>imageId\<close>.
\<close>

theorem read_is_served_without_login:
  "pid \<noteq> [] \<Longrightarrow>
   dispatch initModule d GET [''v1'', ''promotion'', pid] req (tr, w) =
     dispatch initModule (d\<lparr>onlyLoggedIn := g, user_hasPermission := h\<rparr>) GET
       [''v1'', ''promotion'', pid] (req\<lparr>user := u\<rparr>) (tr, w) \<and>
   snd (dispatch initModule d GET [''v1'', ''promotion'', pid] req (tr, w)) =
     (tr @ [ServiceRead (Some pid)], snd (service_read d (Some pid) w)) \<and>
   (\<forall>p w1. service_read d (Some pid) w = (Inr p, w1) \<longrightarrow>
      fst (dispatch initModule d GET [''v1'', ''promotion'', pid] req (tr, w)) =
        Inr (Json (JObj [(''id'', JStr (id' p)), (''title'', JStr (title p)),
                         (''description'', JStr (description p)),
                         (''redirectLink'', JStr (redirectLink p)),
                         (''imageId'', JStr (imageId p))])))"
  by (auto simp: initModule_def answer_def read_def req_promotionId_def project_def run_defs
           split: prod.splits sum.splits)

theorem read_is_served_without_login_witness:
  "''a'' \<noteq> [] \<and>
   dispatch initModule counting GET [''v1'', ''promotion'', ''a''] (anonymous ''x'') ([], 0) =
     (Inr (Json (JObj [(''id'', JStr ''a''), (''title'', JStr ''t''), (''description'', JStr ''d''),
                       (''redirectLink'', JStr ''l''), (''imageId'', JStr ''m'')])),
      ([ServiceRead (Some ''a'')], 0)) \<and>
   fst (dispatch initModule counting GET [''v1'', ''promotion''] (anonymous ''x'') ([], 0)) =
     Inl Unauthorized"
proof -
  have a: "''a'' \<noteq> []" by simp
  have b: "service_read counting (Some ''a'') 0 =
     (Inr \<lparr>id' = ''a'', title = ''t'', description = ''d'', redirectLink = ''l'',
           imageId = ''m'', owner = Some ''root'', enabled = False\<rparr>, 0)"
    by (simp add: example_defs)
  have c: "fst (dispatch initModule counting GET [''v1'', ''promotion''] (anonymous ''x'') ([], 0)) =
     Inl Unauthorized"
    by (simp add: initModule_def guard_onlyLoggedIn_def run_defs example_defs)
  note t = read_is_served_without_login [OF a, where d = counting and req = "anonymous ''x''"
      and tr = "[]" and w = 0 and g = "onlyLoggedIn counting"
      and h = "user_hasPermission counting" and u = None]
  have s: "snd (dispatch initModule counting GET [''v1'', ''promotion'', ''a''] (anonymous ''x'') ([], 0)) =
     ([] @ [ServiceRead (Some ''a'')], snd (service_read counting (Some ''a'') 0))"
    by (rule t [THEN conjunct2, THEN conjunct1])
  have f: "fst (dispatch initModule counting GET [''v1'', ''promotion'', ''a''] (anonymous ''x'') ([], 0)) =
     Inr (Json (JObj [(''id'', JStr ''a''), (''title'', JStr ''t''), (''description'', JStr ''d''),
                      (''redirectLink'', JStr ''l''), (''imageId'', JStr ''m'')]))"
    using t [THEN conjunct2, THEN conjunct2, THEN spec, THEN spec, THEN mp, OF b] by simp
  from s f b c show ?thesis by (simp add: prod_eq_iff)
qed

section \<open>What the schema lets into the collection\<close>

text \<open>
  C3. Saving the document built from an input: when \<open>title\<close>, \<open>description\<close>,
  \<open>redirectLink\<close> and \<open>imageId\<close> are all set and non-empty after trimming and \<open>owner\<close>
  is set, the document is inserted, and its four strings are non-empty and it has an
  owner; when any of them is missing, the save is rejected with a non-empty validation
  report and the collection is unchanged.
\<close>

theorem schema_accepts_only_complete_records:
  "save PublicitySchema (new_document PublicitySchema i input) db = (r, db') \<Longrightarrow>
   (if present (in_title input) \<and> present (in_description input) \<and>
       present (in_redirectLink input) \<and> present (in_imageId input) \<and> in_owner input \<noteq> None
    then \<exists>doc. r = Inr doc \<and> publicities db' = publicities db @ [doc] \<and>
           title doc \<noteq> [] \<and> description doc \<noteq> [] \<and> redirectLink doc \<noteq> [] \<and>
           imageId doc \<noteq> [] \<and> owner doc \<noteq> None
    else (\<exists>m. r = Inl (ValidationError m) \<and> messages m \<noteq> []) \<and> db' = db)"
  by (auto simp: save_def Let_def validate_PublicitySchema new_document_def
        set_string_PublicitySchema present_def split: option.splits if_splits)

theorem schema_accepts_only_complete_records_witness:
  "save PublicitySchema (new_document PublicitySchema ''p'' padre) \<lparr>publicities = []\<rparr> =
     (Inl (ValidationError \<lparr>messages =
        [\<lparr>path = ''imageId'', message = ''Toda publicidad debe tener una image que la represente.''\<rparr>,
         \<lparr>path = ''owner'', message = ''Toda publicidad debe tener una dueno''\<rparr>]\<rparr>),
      \<lparr>publicities = []\<rparr>) \<and>
   \<not> present (in_imageId padre) \<and>
   present (in_imageId (padre\<lparr>in_imageId := Some '' i1 '', in_owner := Some ''root''\<rparr>)) \<and>
   publicities (snd (save PublicitySchema (new_document PublicitySchema ''p''
       (padre\<lparr>in_imageId := Some '' i1 '', in_owner := Some ''root''\<rparr>)) \<lparr>publicities = []\<rparr>)) =
     [\<lparr>id' = ''p'', title = ''Dia del Padre'', description = ''...'', redirectLink = ''http://x'',
       imageId = ''i1'', owner = Some ''root'', enabled = True\<rparr>]"
proof -
  let ?ok = "padre\<lparr>in_imageId := Some '' i1 '', in_owner := Some ''root''\<rparr>"
  have a: "save PublicitySchema (new_document PublicitySchema ''p'' padre) \<lparr>publicities = []\<rparr> =
     (Inl (ValidationError \<lparr>messages =
        [\<lparr>path = ''imageId'', message = ''Toda publicidad debe tener una image que la represente.''\<rparr>,
         \<lparr>path = ''owner'', message = ''Toda publicidad debe tener una dueno''\<rparr>]\<rparr>),
      \<lparr>publicities = []\<rparr>)"
    by (simp add: schema_defs padre_def)
  have p: "\<not> present (in_imageId padre)" "present (in_title ?ok)" "present (in_description ?ok)"
    "present (in_redirectLink ?ok)" "present (in_imageId ?ok)" "in_owner ?ok \<noteq> None"
    by (simp_all add: padre_def present_def trim_def is_white_space_def)
  obtain r db' where b: "save PublicitySchema (new_document PublicitySchema ''p'' ?ok)
      \<lparr>publicities = []\<rparr> = (r, db')"
    by (metis prod.exhaust)
  from schema_accepts_only_complete_records [OF b] p
  obtain doc where d: "r = Inr doc" "publicities db' = [doc]" by auto
  from b d have "doc = \<lparr>id' = ''p'', title = ''Dia del Padre'', description = ''...'',
       redirectLink = ''http://x'', imageId = ''i1'', owner = Some ''root'', enabled = True\<rparr>"
    by (simp add: schema_defs padre_def)
  with a b d p show ?thesis by simp
qed

text \<open>
  C9. A document that \<open>save\<close> inserts is in the collection afterwards; each of its
  \<open>title\<close>, \<open>description\<close>, \<open>redirectLink\<close> and \<open>imageId\<close> is the trimmed value of the
  input, is non-empty, and neither starts nor ends with white space.
\<close>

theorem persisted_strings_are_trimmed:
  "save PublicitySchema (new_document PublicitySchema i input) db = (Inr doc, db') \<Longrightarrow>
   doc \<in> set (publicities db') \<and>
   in_title input \<noteq> None \<and> title doc = trim (the (in_title input)) \<and>
   in_description input \<noteq> None \<and> description doc = trim (the (in_description input)) \<and>
   in_redirectLink input \<noteq> None \<and> redirectLink doc = trim (the (in_redirectLink input)) \<and>
   in_imageId input \<noteq> None \<and> imageId doc = trim (the (in_imageId input)) \<and>
   (\<forall>v \<in> {title doc, description doc, redirectLink doc, imageId doc}.
      v \<noteq> [] \<and> \<not> is_white_space (hd v) \<and> \<not> is_white_space (last v))"
  by (auto simp: save_def Let_def validate_PublicitySchema new_document_def
        set_string_PublicitySchema trim_outer split: option.splits if_splits)

theorem persisted_strings_are_trimmed_witness:
  "save PublicitySchema (new_document PublicitySchema ''p''
       (padre\<lparr>in_title := Some ''  Dia del Padre '', in_imageId := Some '' i1 '',
              in_owner := Some ''root''\<rparr>)) \<lparr>publicities = []\<rparr> =
     (Inr \<lparr>id' = ''p'', title = ''Dia del Padre'', description = ''...'', redirectLink = ''http://x'',
           imageId = ''i1'', owner = Some ''root'', enabled = True\<rparr>,
      \<lparr>publicities = [\<lparr>id' = ''p'', title = ''Dia del Padre'', description = ''...'',
           redirectLink = ''http://x'', imageId = ''i1'', owner = Some ''root'', enabled = True\<rparr>]\<rparr>) \<and>
   trim ''  Dia del Padre '' = ''Dia del Padre'' \<and>
   \<not> is_white_space (hd ''Dia del Padre'') \<and> \<not> is_white_space (last ''Dia del Padre'')"
proof -
  let ?doc = "\<lparr>id' = ''p'', title = ''Dia del Padre'', description = ''...'',
      redirectLink = ''http://x'', imageId = ''i1'', owner = Some ''root'', enabled = True\<rparr>"
  have a: "save PublicitySchema (new_document PublicitySchema ''p''
       (padre\<lparr>in_title := Some ''  Dia del Padre '', in_imageId := Some '' i1 '',
              in_owner := Some ''root''\<rparr>)) \<lparr>publicities = []\<rparr> =
     (Inr ?doc, \<lparr>publicities = [?doc]\<rparr>)"
    by (simp add: schema_defs padre_def)
  from persisted_strings_are_trimmed [OF a] a show ?thesis
    by (simp add: padre_def trim_def is_white_space_def)
qed

section \<open>Creating without an image\<close>

text \<open>
  C8, as the spec states it, fails: the input of the scenario, with no \<open>imageId\<close>, sent by
  a user who holds \<open>admin\<close>, is rejected by the \<open>required\<close> rule of \<open>imageId\<close>, and the
  collection stays empty.
\<close>

theorem create_without_image_counterexample:
  "create promotions (by_root padre) ([], \<lparr>publicities = []\<rparr>) =
     (Inl (ValidationError \<lparr>messages =
        [\<lparr>path = ''imageId'',
          message = ''Toda publicidad debe tener una image que la represente.''\<rparr>]\<rparr>),
      ([ConsoleLog (LogStr ''request body''), ConsoleLog (LogBody padre),
        HasPermission ''root'' ''admin'', ServiceCreate padre],
       \<lparr>publicities = []\<rparr>))"
  by (simp add: create_def run_defs promotions_def by_root_def padre_def root_is_admin_def
        spec_create_def schema_defs)

text \<open>
  C8, amended. With \<open>service.create\<close> and \<open>service.read\<close> as the spec describes them, a
  caller for whom the permission check resolves, an input whose \<open>title\<close>, \<open>description\<close>
  and \<open>redirectLink\<close> are non-empty after trimming, and a generated identifier that no
  record has yet: when the input also has an \<open>imageId\<close> that is non-empty after trimming,
  \<open>create\<close> answers with the generated identifier and a following \<open>read\<close> of that
  identifier answers with the five fields, trimmed; otherwise \<open>create\<close> is rejected with
  the single validation entry for \<open>imageId\<close> and the store is unchanged.
\<close>

theorem create_needs_image_then_read_returns_fields:
  assumes svc: "service_create d = spec_create new_id (user_id u)" "service_read d = spec_read"
    and usr: "user req = Some u"
    and adm: "user_hasPermission d (user_id u) ''admin'' db = (Inr (), db)"
    and inp: "present (in_title (body req))" "present (in_description (body req))"
             "present (in_redirectLink (body req))"
    and fresh: "new_id db \<notin> id' ` set (publicities db)"
  shows "if present (in_imageId (body req))
         then \<exists>tr' db'.
                create d req (tr, db) = (Inr (Json (JObj [(''id'', JStr (new_id db))])), (tr', db')) \<and>
                (\<forall>req2 tr2. req_promotionId req2 = Some (new_id db) \<longrightarrow>
                   fst (read d req2 (tr2, db')) =
                     Inr (Json (JObj
                       [(''id'', JStr (new_id db)),
                        (''title'', JStr (trim (the (in_title (body req))))),
                        (''description'', JStr (trim (the (in_description (body req))))),
                        (''redirectLink'', JStr (trim (the (in_redirectLink (body req))))),
                        (''imageId'', JStr (trim (the (in_imageId (body req)))))])))
         else \<exists>tr'.
                create d req (tr, db) =
                  (Inl (ValidationError \<lparr>messages =
                     [\<lparr>path = ''imageId'', message = required_s (imageId_path PublicitySchema)\<rparr>]\<rparr>),
                   (tr', db))"
proof -
  let ?doc = "new_document PublicitySchema (new_id db) ((body req)\<lparr>in_owner := Some (user_id u)\<rparr>)"
  have f: "title ?doc = trim (the (in_title (body req)))" "title ?doc \<noteq> []"
          "description ?doc = trim (the (in_description (body req)))" "description ?doc \<noteq> []"
          "redirectLink ?doc = trim (the (in_redirectLink (body req)))" "redirectLink ?doc \<noteq> []"
          "owner ?doc \<noteq> None" "id' ?doc = new_id db"
    using inp
    by (auto simp: new_document_def set_string_PublicitySchema present_def split: option.splits)
  show ?thesis
  proof (cases "present (in_imageId (body req))")
    case True
    then have g: "imageId ?doc = trim (the (in_imageId (body req)))" "imageId ?doc \<noteq> []"
      by (auto simp: new_document_def set_string_PublicitySchema present_def split: option.splits)
    have s: "save PublicitySchema ?doc db = (Inr ?doc, db\<lparr>publicities := publicities db @ [?doc]\<rparr>)"
      using f g by (intro save_complete)
    have c: "spec_create new_id (user_id u) (body req) db =
               (Inr (new_id db), db\<lparr>publicities := publicities db @ [?doc]\<rparr>)"
      by (simp add: spec_create_def s f)
    have r: "spec_read (Some (new_id db)) (db\<lparr>publicities := publicities db @ [?doc]\<rparr>) =
               (Inr ?doc, db\<lparr>publicities := publicities db @ [?doc]\<rparr>)"
      using fresh f by (simp add: spec_read_def find_fresh)
    show ?thesis
      using True
      by (simp add: create_def read_def run_defs usr adm svc c r project_def f g
               split: prod.splits)
  next
    case False
    then have g: "imageId ?doc = []"
      by (auto simp: new_document_def set_string_PublicitySchema present_def split: option.splits)
    have s: "save PublicitySchema ?doc db =
               (Inl (ValidationError \<lparr>messages =
                  [\<lparr>path = ''imageId'', message = required_s (imageId_path PublicitySchema)\<rparr>]\<rparr>), db)"
      using f g by (simp add: save_def Let_def validate_only_image_missing)
    have c: "spec_create new_id (user_id u) (body req) db =
               (Inl (ValidationError \<lparr>messages =
                  [\<lparr>path = ''imageId'', message = required_s (imageId_path PublicitySchema)\<rparr>]\<rparr>), db)"
      by (simp add: spec_create_def s)
    show ?thesis
      using False
      by (simp add: create_def run_defs usr adm svc c split: prod.splits)
  qed
qed

theorem create_needs_image_then_read_returns_fields_witness:
  "present (in_title padre) \<and> present (in_description padre) \<and> present (in_redirectLink padre) \<and>
   present (in_imageId (padre\<lparr>in_imageId := Some ''i1''\<rparr>)) \<and>
   create promotions (by_root (padre\<lparr>in_imageId := Some ''i1''\<rparr>)) ([], \<lparr>publicities = []\<rparr>) =
     (Inr (Json (JObj [(''id'', JStr ''p'')])),
      ([ConsoleLog (LogStr ''request body''),
        ConsoleLog (LogBody (padre\<lparr>in_imageId := Some ''i1''\<rparr>)),
        HasPermission ''root'' ''admin'', ServiceCreate (padre\<lparr>in_imageId := Some ''i1''\<rparr>),
        ConsoleLog (LogStr ''result''), ConsoleLog (LogStr ''p'')],
       \<lparr>publicities = [\<lparr>id' = ''p'', title = ''Dia del Padre'', description = ''...'',
          redirectLink = ''http://x'', imageId = ''i1'', owner = Some ''root'',
          enabled = True\<rparr>]\<rparr>)) \<and>
   fst (read promotions \<lparr>user = None, params = [(''promotionId'', ''p'')], body = padre\<rparr>
         ([], \<lparr>publicities = [\<lparr>id' = ''p'', title = ''Dia del Padre'', description = ''...'',
            redirectLink = ''http://x'', imageId = ''i1'', owner = Some ''root'',
            enabled = True\<rparr>]\<rparr>)) =
     Inr (Json (JObj [(''id'', JStr ''p''), (''title'', JStr ''Dia del Padre''),
       (''description'', JStr ''...''), (''redirectLink'', JStr ''http://x''),
       (''imageId'', JStr ''i1'')]))"
proof -
  let ?new = "\<lambda>db. replicate (Suc (length (publicities db))) CHR ''p''"
  let ?u = "\<lparr>user_id = ''root''\<rparr>"
  let ?db = "\<lparr>publicities = []\<rparr>"
  let ?ok = "padre\<lparr>in_imageId := Some ''i1''\<rparr>"
  let ?anon = "\<lparr>user = None, params = [(''promotionId'', ''p'')], body = padre\<rparr>"
  let ?doc = "\<lparr>id' = ''p'', title = ''Dia del Padre'', description = ''...'',
      redirectLink = ''http://x'', imageId = ''i1'', owner = Some ''root'', enabled = True\<rparr>"
  let ?tr = "[ConsoleLog (LogStr ''request body''), ConsoleLog (LogBody ?ok),
      HasPermission ''root'' ''admin'', ServiceCreate ?ok,
      ConsoleLog (LogStr ''result''), ConsoleLog (LogStr ''p'')]"
  have svc: "service_create promotions = spec_create ?new (user_id ?u)"
    "service_read promotions = spec_read"
    by (simp_all add: promotions_def)
  have adm: "user_hasPermission promotions (user_id ?u) ''admin'' ?db = (Inr (), ?db)"
    by (simp add: example_defs)
  have fresh: "?new ?db \<notin> id' ` set (publicities ?db)" by simp
  have usr: "user (by_root ?ok) = Some ?u"
    by (simp add: by_root_def)
  have p: "present (in_title padre)" "present (in_description padre)"
    "present (in_redirectLink padre)" "present (in_imageId ?ok)"
    by (simp_all add: padre_def present_def trim_def is_white_space_def)
  have i: "present (in_title (body (by_root ?ok)))" "present (in_description (body (by_root ?ok)))"
    "present (in_redirectLink (body (by_root ?ok)))" "present (in_imageId (body (by_root ?ok)))"
    using p by (simp_all add: by_root_def padre_def)
  have q: "trim ''Dia del Padre'' = ''Dia del Padre''" "trim ''...'' = ''...''"
    "trim ''http://x'' = ''http://x''" "trim ''i1'' = ''i1''"
    by (simp_all add: trim_def is_white_space_def)
  have c0: "create promotions (by_root ?ok) ([], ?db) =
      (Inr (Json (JObj [(''id'', JStr ''p'')])), (?tr, \<lparr>publicities = [?doc]\<rparr>))"
    by (simp add: create_def run_defs promotions_def by_root_def padre_def root_is_admin_def
          spec_create_def schema_defs)
  from create_needs_image_then_read_returns_fields
    [of promotions ?new ?u "by_root ?ok" ?db "[]", OF svc usr adm i(1) i(2) i(3) fresh] i(4)
  obtain tr' db' where
    c: "create promotions (by_root ?ok) ([], ?db) =
          (Inr (Json (JObj [(''id'', JStr (?new ?db))])), (tr', db'))"
    and r: "\<forall>req2 tr2. req_promotionId req2 = Some (?new ?db) \<longrightarrow>
       fst (read promotions req2 (tr2, db')) =
         Inr (Json (JObj
           [(''id'', JStr (?new ?db)),
            (''title'', JStr (trim (the (in_title (body (by_root ?ok)))))),
            (''description'', JStr (trim (the (in_description (body (by_root ?ok)))))),
            (''redirectLink'', JStr (trim (the (in_redirectLink (body (by_root ?ok)))))),
            (''imageId'', JStr (trim (the (in_imageId (body (by_root ?ok))))))]))"
    by auto
  from c c0 have db': "db' = \<lparr>publicities = [?doc]\<rparr>" by simp
  have "req_promotionId ?anon = Some (?new ?db)"
    by (simp add: req_promotionId_def)
  with r have "fst (read promotions ?anon ([], db')) =
         Inr (Json (JObj
           [(''id'', JStr (?new ?db)),
            (''title'', JStr (trim (the (in_title (body (by_root ?ok)))))),
            (''description'', JStr (trim (the (in_description (body (by_root ?ok)))))),
            (''redirectLink'', JStr (trim (the (in_redirectLink (body (by_root ?ok)))))),
            (''imageId'', JStr (trim (the (in_imageId (body (by_root ?ok))))))]))"
    by blast
  then have rd: "fst (read promotions ?anon ([], \<lparr>publicities = [?doc]\<rparr>)) =
     Inr (Json (JObj [(''id'', JStr ''p''), (''title'', JStr ''Dia del Padre''),
       (''description'', JStr ''...''), (''redirectLink'', JStr ''http://x''),
       (''imageId'', JStr ''i1'')]))"
    unfolding db' by (simp add: by_root_def padre_def q)
  from p c0 rd show ?thesis by simp
qed

end
